theory Spec2Isabelle
  imports Main "HOL-Library.Word"
begin


unbundle bit_operations_syntax

section \<open>Constants and types taken from the driver's header\<close>

type_synonym u8 = "8 word"
type_synonym u16 = "16 word"
type_synonym u32 = "32 word"

text \<open>
  Modelled from the spec: the header \<^verbatim>\<open>fatfs.h\<close> (the macros \<^verbatim>\<open>SEC_SIZE\<close>,
  \<^verbatim>\<open>CL_FREE\<close>, \<^verbatim>\<open>CL_ROOT\<close>, \<^verbatim>\<open>CL_FIRST\<close>, \<^verbatim>\<open>FAT12\<close>, \<^verbatim>\<open>FAT16\<close>, \<^verbatim>\<open>IS_EOFCL\<close> and the
  structure \<^verbatim>\<open>fatfsmount\<close>) is not among the sources. The spec fixes: sector size 512,
  cluster 0 free, cluster 1 reserved, 2 the first valid data cluster, the root directory
  denoted by a sentinel cluster value (the code compares with \<^verbatim>\<open>CL_ROOT\<close>; the directory
  record of the root carries cluster 0), and every value at or above the end-of-chain
  threshold an end of chain.
\<close>

definition SEC_SIZE :: u32 where "SEC_SIZE = 512"
definition CL_FREE :: u32 where "CL_FREE = 0"
definition CL_ROOT :: u32 where "CL_ROOT = 0"
definition CL_FIRST :: u32 where "CL_FIRST = 2"

text \<open>The error numbers of \<^verbatim>\<open>errno.h\<close> that the two files return themselves.\<close>

definition ENOENT :: int where "ENOENT = 2"
definition EIO :: int where "EIO = 5"
definition EAGAIN :: int where "EAGAIN = 11"
definition EINVAL :: int where "EINVAL = 22"
definition ENOSPC :: int where "ENOSPC = 28"

section \<open>The block device collaborator\<close>

datatype blkop = UK_BLKREQ_READ | UK_BLKREQ_WRITE

text \<open>
  The device is outside the repository. It is modelled as an addressable store of
  sectors (sector number, then byte offset inside the sector), a log of every request
  issued so far, and an arbitrary deterministic failure behaviour: the error number a
  request gets may depend on the whole history. 0 means success.
\<close>

record blkdev =
  blk_data :: "u32 \<Rightarrow> nat \<Rightarrow> u8"
  blk_fail :: "(blkop \<times> u32) list \<Rightarrow> blkop \<Rightarrow> u32 \<Rightarrow> int"
  blk_log :: "(blkop \<times> u32) list"

text \<open>
  \<^verbatim>\<open>uk_blkdev_sync_io(dev, 0, op, sec, 1, buf + off)\<close>: one whole sector is transferred
  between the device and the bytes \<open>off ..< off + 512\<close> of the buffer, or the request
  fails and nothing is transferred (the spec's contract: no partial transfer).
\<close>

definition sector_to_buf :: "(nat \<Rightarrow> u8) \<Rightarrow> (nat \<Rightarrow> u8) \<Rightarrow> nat \<Rightarrow> (nat \<Rightarrow> u8)" where
  "sector_to_buf s buf off =
     (\<lambda>i. if off \<le> i \<and> i < off + unat SEC_SIZE then s (i - off) else buf i)"

definition buf_to_sector :: "(nat \<Rightarrow> u8) \<Rightarrow> nat \<Rightarrow> (nat \<Rightarrow> u8) \<Rightarrow> (nat \<Rightarrow> u8)" where
  "buf_to_sector buf off s = (\<lambda>i. if i < unat SEC_SIZE then buf (off + i) else s i)"

definition uk_blkdev_sync_io ::
  "blkdev \<Rightarrow> blkop \<Rightarrow> u32 \<Rightarrow> (nat \<Rightarrow> u8) \<Rightarrow> nat \<Rightarrow> int \<times> blkdev \<times> (nat \<Rightarrow> u8)" where
  "uk_blkdev_sync_io d op sec buf off =
     (let e = blk_fail d (blk_log d) op sec;
          d1 = d\<lparr>blk_log := blk_log d @ [(op, sec)]\<rparr>
      in if e \<noteq> 0 then (e, d1, buf)
         else (case op of
                 UK_BLKREQ_READ \<Rightarrow> (0, d1, sector_to_buf (blk_data d sec) buf off)
               | UK_BLKREQ_WRITE \<Rightarrow>
                   (0, d1\<lparr>blk_data := (blk_data d)
                            (sec := buf_to_sector buf off (blk_data d sec))\<rparr>,
                    buf)))"

section \<open>Mount data\<close>

record fatfsmount =
  fat_type :: int
  root_start :: u32
  fat_start :: u32
  data_start :: u32
  fat_eof :: u32
  sec_per_cl :: u32
  cluster_size :: u32
  last_cluster :: u32
  fat_mask :: u32
  free_scan :: u32
  fat_buf :: "nat \<Rightarrow> u8"
  dir_buf :: "nat \<Rightarrow> u8"
  dev :: blkdev

abbreviation FAT12 :: "fatfsmount \<Rightarrow> bool" where
  "FAT12 fmp \<equiv> fat_type fmp = 12"

abbreviation FAT16 :: "fatfsmount \<Rightarrow> bool" where
  "FAT16 fmp \<equiv> fat_type fmp = 16"

abbreviation IS_EOFCL :: "fatfsmount \<Rightarrow> u32 \<Rightarrow> bool" where
  "IS_EOFCL fmp cl \<equiv> fat_eof fmp \<le> cl"

section \<open>fatfs\_fat.c: the FAT entry codec\<close>

text \<open>A 16-bit load and store through a byte pointer, little-endian as the on-disk
  format is.\<close>

definition load16 :: "(nat \<Rightarrow> u8) \<Rightarrow> nat \<Rightarrow> u16" where
  "load16 buf off = ucast (buf off) OR push_bit 8 (ucast (buf (off + 1)))"

definition store16 :: "(nat \<Rightarrow> u8) \<Rightarrow> nat \<Rightarrow> u16 \<Rightarrow> (nat \<Rightarrow> u8)" where
  "store16 buf off v = buf(off := ucast v, off + 1 := ucast (drop_bit 8 v))"

definition read_fat_entry :: "fatfsmount \<Rightarrow> u32 \<Rightarrow> int \<times> fatfsmount" where
  "read_fat_entry fmp cl =
     (let sec0 = (if FAT16 fmp then (cl * 2) div SEC_SIZE else (cl * 3 div 2) div SEC_SIZE);
          border = (\<not> FAT16 fmp \<and> (cl * 3 div 2) mod SEC_SIZE = SEC_SIZE - 1);
          sec = sec0 + fat_start fmp;
          (error, d1, buf1) = uk_blkdev_sync_io (dev fmp) UK_BLKREQ_READ sec (fat_buf fmp) 0;
          fmp1 = fmp\<lparr>fat_buf := buf1, dev := d1\<rparr>
      in if error \<noteq> 0 then (error, fmp1)
         else if \<not> FAT12 fmp \<or> \<not> border then (0, fmp1)
         else (let (error2, d2, buf2) =
                     uk_blkdev_sync_io d1 UK_BLKREQ_READ (sec + 1) buf1 (unat SEC_SIZE)
               in (error2, fmp1\<lparr>fat_buf := buf2, dev := d2\<rparr>)))"

definition write_fat_entry :: "fatfsmount \<Rightarrow> u32 \<Rightarrow> int \<times> fatfsmount" where
  "write_fat_entry fmp cl =
     (let sec0 = (if FAT16 fmp then (cl * 2) div SEC_SIZE else (cl * 3 div 2) div SEC_SIZE);
          border = (\<not> FAT16 fmp \<and> (cl * 3 div 2) mod SEC_SIZE = SEC_SIZE - 1);
          sec = sec0 + fat_start fmp;
          (error, d1, _) = uk_blkdev_sync_io (dev fmp) UK_BLKREQ_WRITE sec (fat_buf fmp) 0;
          fmp1 = fmp\<lparr>dev := d1\<rparr>
      in if error \<noteq> 0 then (error, fmp1)
         else if \<not> FAT12 fmp \<or> \<not> border then (0, fmp1)
         else (let (error2, d2, _) =
                     uk_blkdev_sync_io d1 UK_BLKREQ_WRITE (sec + 1) (fat_buf fmp) (unat SEC_SIZE)
               in (error2, fmp1\<lparr>dev := d2\<rparr>)))"

definition fat_offset :: "fatfsmount \<Rightarrow> u32 \<Rightarrow> nat" where
  "fat_offset fmp cl =
     unat (if FAT16 fmp then (cl * 2) mod SEC_SIZE else (cl * 3 div 2) mod SEC_SIZE)"

definition fat_next_cluster :: "fatfsmount \<Rightarrow> u32 \<Rightarrow> (int + u32) \<times> fatfsmount" where
  "fat_next_cluster fmp cl =
     (let (error, fmp1) = read_fat_entry fmp cl
      in if error \<noteq> 0 then (Inl error, fmp1)
         else (let offset = fat_offset fmp1 cl;
                   val = load16 (fat_buf fmp1) offset;
                   val' = (if FAT12 fmp1
                           then (if cl AND 1 \<noteq> 0 then drop_bit 4 val else val AND 0xfff)
                           else val)
               in (Inr (ucast val'), fmp1)))"

definition fat_set_cluster :: "fatfsmount \<Rightarrow> u32 \<Rightarrow> u32 \<Rightarrow> int \<times> fatfsmount" where
  "fat_set_cluster fmp cl next =
     (let (error, fmp1) = read_fat_entry fmp cl
      in if error \<noteq> 0 then (error, fmp1)
         else (let offset = fat_offset fmp1 cl;
                   val = (ucast (next AND fat_mask fmp1) :: u16);
                   val' = (if FAT12 fmp1
                           then (let tmp = load16 (fat_buf fmp1) offset
                                 in if cl AND 1 \<noteq> 0
                                    then push_bit 4 val OR (tmp AND 0xf)
                                    else val OR (tmp AND 0xf000))
                           else val)
               in write_fat_entry (fmp1\<lparr>fat_buf := store16 (fat_buf fmp1) offset val'\<rparr>) cl))"


section \<open>fatfs\_fat.c: the cluster allocator\<close>

text \<open>
  The loops of the allocator follow links read from the disk and need not terminate (a
  cyclic chain, a scan start outside the scanned range). Each loop therefore takes a
  bound on its number of iterations; \<open>None\<close> is a run that exceeds the bound, and a
  claim that a call returns is a claim that some bound yields \<open>Some\<close>.
\<close>

text \<open>The \<^verbatim>\<open>while (cl != scan_start)\<close> loop of \<^verbatim>\<open>fat_alloc_cluster\<close>.\<close>

fun alloc_scan :: "nat \<Rightarrow> fatfsmount \<Rightarrow> u32 \<Rightarrow> u32 \<Rightarrow> ((int + u32) \<times> fatfsmount) option" where
  "alloc_scan 0 fmp scan_start cl = None"
| "alloc_scan (Suc n) fmp scan_start cl =
     (if cl = scan_start then Some (Inl ENOSPC, fmp)
      else (case fat_next_cluster fmp cl of
              (Inl error, fmp1) \<Rightarrow> Some (Inl error, fmp1)
            | (Inr next, fmp1) \<Rightarrow>
                if next = CL_FREE then Some (Inr cl, fmp1)
                else alloc_scan n fmp1 scan_start
                       (if last_cluster fmp1 \<le> cl + 1 then CL_FIRST else cl + 1)))"

definition fat_alloc_cluster ::
  "nat \<Rightarrow> fatfsmount \<Rightarrow> u32 \<Rightarrow> ((int + u32) \<times> fatfsmount) option" where
  "fat_alloc_cluster n fmp scan_start =
     (let scan_start' = (if scan_start = 0 then free_scan fmp else scan_start)
      in alloc_scan n fmp scan_start' (scan_start' + 1))"

text \<open>The \<^verbatim>\<open>while (!IS_EOFCL(fmp, cl))\<close> loop of \<^verbatim>\<open>fat_free_clusters\<close>; it yields the
  value of \<^verbatim>\<open>cl\<close> at loop exit.\<close>

fun free_walk :: "nat \<Rightarrow> fatfsmount \<Rightarrow> u32 \<Rightarrow> ((int + u32) \<times> fatfsmount) option" where
  "free_walk 0 fmp cl = None"
| "free_walk (Suc n) fmp cl =
     (if IS_EOFCL fmp cl then Some (Inr cl, fmp)
      else (case fat_next_cluster fmp cl of
              (Inl error, fmp1) \<Rightarrow> Some (Inl error, fmp1)
            | (Inr next, fmp1) \<Rightarrow>
                (case fat_set_cluster fmp1 cl CL_FREE of
                   (error, fmp2) \<Rightarrow>
                     if error \<noteq> 0 then Some (Inl error, fmp2)
                     else free_walk n fmp2 next)))"

definition fat_free_clusters :: "nat \<Rightarrow> fatfsmount \<Rightarrow> u32 \<Rightarrow> (int \<times> fatfsmount) option" where
  "fat_free_clusters n fmp start =
     (if start < CL_FIRST then Some (EINVAL, fmp)
      else (case free_walk n fmp start of
              None \<Rightarrow> None
            | Some (Inl error, fmp1) \<Rightarrow> Some (error, fmp1)
            | Some (Inr cl, fmp1) \<Rightarrow> Some (fat_set_cluster fmp1 cl CL_FREE)))"

text \<open>
  The \<^verbatim>\<open>for (i = 1; i < cl_len; i++)\<close> loop of \<^verbatim>\<open>fat_expand_file\<close>, by the number of
  iterations left. The loop state is \<^verbatim>\<open>alloc\<close> and \<^verbatim>\<open>current\<close>.
\<close>

fun expand_steps ::
  "nat \<Rightarrow> nat \<Rightarrow> fatfsmount \<Rightarrow> bool \<Rightarrow> u32 \<Rightarrow> ((int + bool \<times> u32) \<times> fatfsmount) option" where
  "expand_steps n 0 fmp alloc current = Some (Inr (alloc, current), fmp)"
| "expand_steps n (Suc k) fmp alloc current =
     (case fat_next_cluster fmp current of
        (Inl error, fmp1) \<Rightarrow> Some (Inl error, fmp1)
      | (Inr next, fmp1) \<Rightarrow>
          if alloc \<or> fat_eof fmp1 \<le> next
          then (case fat_alloc_cluster n fmp1 current of
                  None \<Rightarrow> None
                | Some (Inl error, fmp2) \<Rightarrow> Some (Inl error, fmp2)
                | Some (Inr next', fmp2) \<Rightarrow>
                    (case fat_set_cluster fmp2 current next' of
                       (error, fmp3) \<Rightarrow>
                         if error \<noteq> 0 then Some (Inl error, fmp3)
                         else expand_steps n k fmp3 True next'))
          else expand_steps n k fmp1 alloc next)"

text \<open>
  \<^verbatim>\<open>fat_expand_file(fmp, &cl, size)\<close> (\<open>sz\<close> below, \<open>size\<close> being taken in HOL)
  returns the error number and the value left in \<^verbatim>\<open>*cl\<close>. The division by \<^verbatim>\<open>cluster_size\<close> traps when that is 0: such a call does not
  return. The result of the last \<^verbatim>\<open>fat_set_cluster\<close> is dropped, as in the source.
\<close>

definition fat_expand_file ::
  "nat \<Rightarrow> fatfsmount \<Rightarrow> u32 \<Rightarrow> u32 \<Rightarrow> ((int \<times> u32) \<times> fatfsmount) option" where
  "fat_expand_file n fmp cl sz =
     (if cluster_size fmp = 0 then None
      else
        let cl_len = (sz + cluster_size fmp - 1) div cluster_size fmp;
            first = (if cl = CL_FREE
                     then (case fat_alloc_cluster n fmp 0 of
                             None \<Rightarrow> None
                           | Some (Inl error, fmp1) \<Rightarrow> Some (Inl error, fmp1)
                           | Some (Inr c, fmp1) \<Rightarrow> Some (Inr (True, c), fmp1))
                     else Some (Inr (False, cl), fmp))
        in (case first of
              None \<Rightarrow> None
            | Some (Inl error, fmp1) \<Rightarrow> Some ((error, cl), fmp1)
            | Some (Inr (alloc, cl'), fmp1) \<Rightarrow>
                (case expand_steps n (unat cl_len - 1) fmp1 alloc cl' of
                   None \<Rightarrow> None
                 | Some (Inl error, fmp2) \<Rightarrow> Some ((error, cl'), fmp2)
                 | Some (Inr (alloc', current), fmp2) \<Rightarrow>
                     if alloc'
                     then (case fat_set_cluster fmp2 current (fat_eof fmp2) of
                             (_, fmp3) \<Rightarrow> Some ((0, cl'), fmp3))
                     else Some ((0, cl'), fmp2))))"

text \<open>The \<^verbatim>\<open>while (!IS_EOFCL(fmp, cl))\<close> loop of \<^verbatim>\<open>fat_expand_dir\<close>; it yields the value
  of \<^verbatim>\<open>cl\<close> at loop exit.\<close>

fun dir_walk :: "nat \<Rightarrow> fatfsmount \<Rightarrow> u32 \<Rightarrow> ((int + u32) \<times> fatfsmount) option" where
  "dir_walk 0 fmp cl = None"
| "dir_walk (Suc n) fmp cl =
     (if IS_EOFCL fmp cl then Some (Inr cl, fmp)
      else (case fat_next_cluster fmp cl of
              (Inl error, fmp1) \<Rightarrow> Some (Inl error, fmp1)
            | (Inr next, fmp1) \<Rightarrow> dir_walk n fmp1 next))"

definition fat_expand_dir ::
  "nat \<Rightarrow> fatfsmount \<Rightarrow> u32 \<Rightarrow> ((int + u32) \<times> fatfsmount) option" where
  "fat_expand_dir n fmp cl =
     (case dir_walk n fmp cl of
        None \<Rightarrow> None
      | Some (Inl error, fmp1) \<Rightarrow> Some (Inl error, fmp1)
      | Some (Inr cl', fmp1) \<Rightarrow>
          (case fat_alloc_cluster n fmp1 cl' of
             None \<Rightarrow> None
           | Some (Inl error, fmp2) \<Rightarrow> Some (Inl error, fmp2)
           | Some (Inr next, fmp2) \<Rightarrow>
               (case fat_set_cluster fmp2 cl' next of
                  (error, fmp3) \<Rightarrow>
                    if error \<noteq> 0 then Some (Inl error, fmp3)
                    else (case fat_set_cluster fmp3 next (fat_eof fmp3) of
                            (error', fmp4) \<Rightarrow>
                              if error' \<noteq> 0 then Some (Inl error', fmp4)
                              else Some (Inr next, fmp4)))))"


section \<open>fatfs\_node.c: directory entries\<close>

text \<open>
  Modelled from the spec: \<^verbatim>\<open>struct fat_dirent\<close>, \<^verbatim>\<open>struct fatfs_node\<close>, \<^verbatim>\<open>DIR_PER_SEC\<close>,
  \<^verbatim>\<open>IS_EMPTY\<close>, \<^verbatim>\<open>IS_DELETED\<close>, \<^verbatim>\<open>IS_VOL\<close>, \<^verbatim>\<open>FA_SUBDIR\<close>, \<^verbatim>\<open>FA_VOLID\<close> and
  \<^verbatim>\<open>fat_compare_name\<close> are declared in the header or defined in a file that is not among
  the sources. The spec gives the record: 32 bytes, an 11-byte name, one attribute byte,
  time, date and starting cluster of two bytes each and a four-byte size; first name
  byte 0x00 is the end of the directory, 0xE5 a deleted slot; name comparison is bytewise
  equality of the 11-byte names. A record is kept as its 32 bytes; the places of the
  attribute bits and of the time, date and cluster fields inside the record are those of
  the FAT on-disk format. \<^verbatim>\<open>cl_to_sec\<close> and \<^verbatim>\<open>fat_convert_name\<close> are not described by
  the spec and are parameters (\<open>c2s\<close>, \<open>conv\<close>) of the operations that call them.
\<close>

type_synonym fat_dirent = "nat \<Rightarrow> u8"

definition DIRENT_SIZE :: nat where "DIRENT_SIZE = 32"
definition DIR_PER_SEC :: nat where "DIR_PER_SEC = 16"
definition FA_VOLID :: u8 where "FA_VOLID = 0x08"
definition FA_SUBDIR :: u8 where "FA_SUBDIR = 0x10"
definition U32_MAX :: u32 where "U32_MAX = 0xffffffff"

definition IS_EMPTY :: "fat_dirent \<Rightarrow> bool" where
  "IS_EMPTY de = (de 0 = 0)"

definition IS_DELETED :: "fat_dirent \<Rightarrow> bool" where
  "IS_DELETED de = (de 0 = 0xe5)"

definition IS_VOL :: "fat_dirent \<Rightarrow> bool" where
  "IS_VOL de = (de 11 AND FA_VOLID \<noteq> 0)"

definition de_cluster :: "fat_dirent \<Rightarrow> u16" where
  "de_cluster de = load16 de 26"

definition fat_compare_name :: "fat_dirent \<Rightarrow> u8 list \<Rightarrow> int" where
  "fat_compare_name de name = (if map de [0..<11] = take 11 name then 0 else 1)"

record fatfs_node =
  dirent :: fat_dirent
  sector :: u32
  offset :: u32

text \<open>The record at slot \<open>i\<close> of the directory buffer, and \<^verbatim>\<open>memcpy\<close> of a record into
  a buffer.\<close>

definition dirent_at :: "(nat \<Rightarrow> u8) \<Rightarrow> nat \<Rightarrow> fat_dirent" where
  "dirent_at buf i = (\<lambda>j. if j < DIRENT_SIZE then buf (DIRENT_SIZE * i + j) else 0)"

definition put_dirent :: "(nat \<Rightarrow> u8) \<Rightarrow> nat \<Rightarrow> fat_dirent \<Rightarrow> (nat \<Rightarrow> u8)" where
  "put_dirent buf off de = (\<lambda>j. if off \<le> j \<and> j < off + DIRENT_SIZE then de (j - off) else buf j)"

definition fat_read_dirent :: "fatfsmount \<Rightarrow> u32 \<Rightarrow> int \<times> fatfsmount" where
  "fat_read_dirent fmp sec =
     (let (error, d1, buf1) = uk_blkdev_sync_io (dev fmp) UK_BLKREQ_READ sec (dir_buf fmp) 0
      in (error, fmp\<lparr>dir_buf := buf1, dev := d1\<rparr>))"

definition fat_write_dirent :: "fatfsmount \<Rightarrow> u32 \<Rightarrow> int \<times> fatfsmount" where
  "fat_write_dirent fmp sec =
     (let (error, d1, _) = uk_blkdev_sync_io (dev fmp) UK_BLKREQ_WRITE sec (dir_buf fmp) 0
      in (error, fmp\<lparr>dev := d1\<rparr>))"

text \<open>The slot loop of \<^verbatim>\<open>fat_lookup_dirent\<close>: \<open>k\<close> slots are left, \<open>i\<close> is the next one.\<close>

fun lookup_slots ::
  "nat \<Rightarrow> nat \<Rightarrow> (nat \<Rightarrow> u8) \<Rightarrow> u32 \<Rightarrow> u8 list \<Rightarrow> fatfs_node \<Rightarrow> int \<times> fatfs_node" where
  "lookup_slots 0 i buf sec name np = (EAGAIN, np)"
| "lookup_slots (Suc k) i buf sec name np =
     (let de = dirent_at buf i
      in if IS_EMPTY de then (ENOENT, np)
         else if \<not> IS_VOL de \<and> fat_compare_name de name = 0
         then (0, np\<lparr>dirent := de, sector := sec, offset := of_nat (DIRENT_SIZE * i)\<rparr>)
         else lookup_slots k (Suc i) buf sec name np)"

definition fat_lookup_dirent ::
  "fatfsmount \<Rightarrow> u32 \<Rightarrow> u8 list \<Rightarrow> fatfs_node \<Rightarrow> int \<times> fatfs_node \<times> fatfsmount" where
  "fat_lookup_dirent fmp sec name np =
     (let (error, fmp1) = fat_read_dirent fmp sec
      in if error \<noteq> 0 then (error, np, fmp1)
         else (let (error', np1) = lookup_slots DIR_PER_SEC 0 (dir_buf fmp1) sec name np
               in (error', np1, fmp1)))"

text \<open>
  A run of \<open>k\<close> consecutive sectors from \<open>sec\<close>, left at the first result other than
  \<^verbatim>\<open>EAGAIN\<close>: the root loop \<^verbatim>\<open>for (sec = root_start; sec < data_start; sec++)\<close> and the
  loop over the sectors of one cluster. \<^verbatim>\<open>EAGAIN\<close> is the result when the run is used up.
\<close>

fun lookup_secs ::
  "nat \<Rightarrow> fatfsmount \<Rightarrow> u32 \<Rightarrow> u8 list \<Rightarrow> fatfs_node \<Rightarrow> int \<times> fatfs_node \<times> fatfsmount" where
  "lookup_secs 0 fmp sec name np = (EAGAIN, np, fmp)"
| "lookup_secs (Suc k) fmp sec name np =
     (case fat_lookup_dirent fmp sec name np of
        (error, np1, fmp1) \<Rightarrow>
          if error \<noteq> EAGAIN then (error, np1, fmp1)
          else lookup_secs k fmp1 (sec + 1) name np1)"

fun lookup_chain ::
  "(fatfsmount \<Rightarrow> u32 \<Rightarrow> u32) \<Rightarrow> nat \<Rightarrow> fatfsmount \<Rightarrow> u32 \<Rightarrow> u8 list \<Rightarrow> fatfs_node
     \<Rightarrow> (int \<times> fatfs_node \<times> fatfsmount) option" where
  "lookup_chain c2s 0 fmp cl name np = None"
| "lookup_chain c2s (Suc n) fmp cl name np =
     (if IS_EOFCL fmp cl then Some (ENOENT, np, fmp)
      else (case lookup_secs (unat (sec_per_cl fmp)) fmp (c2s fmp cl) name np of
              (error, np1, fmp1) \<Rightarrow>
                if error \<noteq> EAGAIN then Some (error, np1, fmp1)
                else (case fat_next_cluster fmp1 cl of
                        (Inl error', fmp2) \<Rightarrow> Some (error', np1, fmp2)
                      | (Inr next, fmp2) \<Rightarrow> lookup_chain c2s n fmp2 next name np1)))"

text \<open>
  \<^verbatim>\<open>fatfs_lookup_node(dvp, name, np)\<close>: \<open>fmp\<close> is \<^verbatim>\<open>dvp->v_mount->m_data\<close>, \<open>dnp\<close> is
  \<^verbatim>\<open>dvp->v_data\<close>, a null \<^verbatim>\<open>name\<close> is \<open>None\<close>.
\<close>

definition fatfs_lookup_node ::
  "(string \<Rightarrow> u8 list) \<Rightarrow> (fatfsmount \<Rightarrow> u32 \<Rightarrow> u32) \<Rightarrow> nat \<Rightarrow> fatfsmount \<Rightarrow> fatfs_node
     \<Rightarrow> string option \<Rightarrow> fatfs_node \<Rightarrow> (int \<times> fatfs_node \<times> fatfsmount) option" where
  "fatfs_lookup_node conv c2s n fmp dnp name np =
     (case name of
        None \<Rightarrow> Some (ENOENT, np, fmp)
      | Some nm \<Rightarrow>
          (let fat_name = take 11 (conv nm) @ [0];
               cl = (ucast (de_cluster (dirent dnp)) :: u32)
           in if cl = CL_ROOT
              then (case lookup_secs (unat (data_start fmp) - unat (root_start fmp)) fmp
                           (root_start fmp) fat_name np of
                      (error, np1, fmp1) \<Rightarrow>
                        if error \<noteq> EAGAIN then Some (error, np1, fmp1)
                        else Some (ENOENT, np1, fmp1))
              else lookup_chain c2s n fmp cl fat_name np))"

text \<open>The slot loop of \<^verbatim>\<open>fat_get_dirent\<close>; \<open>index\<close> is \<^verbatim>\<open>*index\<close>.\<close>

fun get_slots ::
  "nat \<Rightarrow> nat \<Rightarrow> (nat \<Rightarrow> u8) \<Rightarrow> u32 \<Rightarrow> int \<Rightarrow> int \<Rightarrow> fatfs_node \<Rightarrow> int \<times> int \<times> fatfs_node" where
  "get_slots 0 i buf sec target index np = (EAGAIN, index, np)"
| "get_slots (Suc k) i buf sec target index np =
     (let de = dirent_at buf i
      in if IS_EMPTY de then (ENOENT, index, np)
         else if \<not> IS_DELETED de \<and> \<not> IS_VOL de
         then (if index = target
               then (0, index, np\<lparr>dirent := de, sector := sec, offset := of_nat (DIRENT_SIZE * i)\<rparr>)
               else get_slots k (Suc i) buf sec target (index + 1) np)
         else get_slots k (Suc i) buf sec target index np)"

definition fat_get_dirent ::
  "fatfsmount \<Rightarrow> u32 \<Rightarrow> int \<Rightarrow> int \<Rightarrow> fatfs_node \<Rightarrow> int \<times> int \<times> fatfs_node \<times> fatfsmount" where
  "fat_get_dirent fmp sec target index np =
     (let (error, fmp1) = fat_read_dirent fmp sec
      in if error \<noteq> 0 then (error, index, np, fmp1)
         else (let (error', index', np1) = get_slots DIR_PER_SEC 0 (dir_buf fmp1) sec target index np
               in (error', index', np1, fmp1)))"

fun get_secs ::
  "nat \<Rightarrow> fatfsmount \<Rightarrow> u32 \<Rightarrow> int \<Rightarrow> int \<Rightarrow> fatfs_node \<Rightarrow> int \<times> int \<times> fatfs_node \<times> fatfsmount" where
  "get_secs 0 fmp sec target index np = (EAGAIN, index, np, fmp)"
| "get_secs (Suc k) fmp sec target index np =
     (case fat_get_dirent fmp sec target index np of
        (error, index1, np1, fmp1) \<Rightarrow>
          if error \<noteq> EAGAIN then (error, index1, np1, fmp1)
          else get_secs k fmp1 (sec + 1) target index1 np1)"

fun get_chain ::
  "(fatfsmount \<Rightarrow> u32 \<Rightarrow> u32) \<Rightarrow> nat \<Rightarrow> fatfsmount \<Rightarrow> u32 \<Rightarrow> int \<Rightarrow> int \<Rightarrow> fatfs_node
     \<Rightarrow> (int \<times> fatfs_node \<times> fatfsmount) option" where
  "get_chain c2s 0 fmp cl target index np = None"
| "get_chain c2s (Suc n) fmp cl target index np =
     (if IS_EOFCL fmp cl then Some (ENOENT, np, fmp)
      else (case get_secs (unat (sec_per_cl fmp)) fmp (c2s fmp cl) target index np of
              (error, index1, np1, fmp1) \<Rightarrow>
                if error \<noteq> EAGAIN then Some (error, np1, fmp1)
                else (case fat_next_cluster fmp1 cl of
                        (Inl error', fmp2) \<Rightarrow> Some (error', np1, fmp2)
                      | (Inr next, fmp2) \<Rightarrow> get_chain c2s n fmp2 next target index1 np1)))"

text \<open>The entries \<^verbatim>\<open>.\<close> and \<^verbatim>\<open>..\<close> that \<^verbatim>\<open>fatfs_get_node\<close> makes up for the root directory:
  the name, the attribute, the cluster, time and date are stored, the other bytes of
  \<^verbatim>\<open>np->dirent\<close> and \<^verbatim>\<open>np->offset\<close> are left as they were.\<close>

definition synth_node :: "u8 list \<Rightarrow> u32 \<Rightarrow> fatfs_node \<Rightarrow> fatfs_node" where
  "synth_node nm cl np =
     (let de0 = (\<lambda>j. if j < 11 then nm ! j else dirent np j);
          de1 = de0(11 := FA_SUBDIR);
          de2 = store16 de1 26 (ucast cl);
          de3 = store16 de2 22 0;
          de4 = store16 de3 24 0
      in np\<lparr>dirent := de4, sector := U32_MAX\<rparr>)"

definition dot_name :: "u8 list" where
  "dot_name = 0x2e # replicate 10 0x20"

definition dotdot_name :: "u8 list" where
  "dotdot_name = 0x2e # 0x2e # replicate 9 0x20"

definition fatfs_get_node ::
  "(fatfsmount \<Rightarrow> u32 \<Rightarrow> u32) \<Rightarrow> nat \<Rightarrow> fatfsmount \<Rightarrow> fatfs_node \<Rightarrow> int \<Rightarrow> fatfs_node
     \<Rightarrow> (int \<times> fatfs_node \<times> fatfsmount) option" where
  "fatfs_get_node c2s n fmp dnp index np =
     (let cl = (ucast (de_cluster (dirent dnp)) :: u32)
      in if cl = CL_ROOT
         then (if index = 0 then Some (0, synth_node dot_name cl np, fmp)
               else if index = 1 then Some (0, synth_node dotdot_name cl np, fmp)
               else (case get_secs (unat (data_start fmp) - unat (root_start fmp)) fmp
                            (root_start fmp) (index - 2) 0 np of
                       (error, index1, np1, fmp1) \<Rightarrow>
                         if error \<noteq> EAGAIN then Some (error, np1, fmp1)
                         else Some (ENOENT, np1, fmp1)))
         else get_chain c2s n fmp cl index 0 np)"

definition fatfs_put_node :: "fatfsmount \<Rightarrow> fatfs_node \<Rightarrow> int \<times> fatfsmount" where
  "fatfs_put_node fmp np =
     (let (error, fmp1) = fat_read_dirent fmp (sector np)
      in if error \<noteq> 0 then (error, fmp1)
         else fat_write_dirent
                (fmp1\<lparr>dir_buf := put_dirent (dir_buf fmp1) (unat (offset np)) (dirent np)\<rparr>)
                (sector np))"


section \<open>Auxiliary definitions for the proofs\<close>

text \<open>
  None of the following is part of the driver. \<open>io_ok\<close> is the hypothesis that every
  request to the device succeeds, whatever the history. The others name the sector, the
  buffer contents and the log entries that one call of the codec produces, the byte of
  the FAT region at a linear offset (\<open>fatb\<close>), and the value stored for a cluster
  (\<open>fat_get\<close>).
\<close>

definition io_ok :: "blkdev \<Rightarrow> bool" where
  "io_ok d = (\<forall>l op s. blk_fail d l op s = 0)"

definition fat_sec :: "fatfsmount \<Rightarrow> u32 \<Rightarrow> u32" where
  "fat_sec fmp cl = (if FAT16 fmp then (cl * 2) div SEC_SIZE else (cl * 3 div 2) div SEC_SIZE) + fat_start fmp"

definition fat_border :: "fatfsmount \<Rightarrow> u32 \<Rightarrow> bool" where
  "fat_border fmp cl = (FAT12 fmp \<and> (cl * 3 div 2) mod SEC_SIZE = SEC_SIZE - 1)"

definition rd_buf :: "fatfsmount \<Rightarrow> u32 \<Rightarrow> (nat \<Rightarrow> u8)" where
  "rd_buf fmp cl = (let b1 = sector_to_buf (blk_data (dev fmp) (fat_sec fmp cl)) (fat_buf fmp) 0
     in if fat_border fmp cl then sector_to_buf (blk_data (dev fmp) (fat_sec fmp cl + 1)) b1 (unat SEC_SIZE) else b1)"

definition rd_log :: "fatfsmount \<Rightarrow> u32 \<Rightarrow> (blkop \<times> u32) list" where
  "rd_log fmp cl = (UK_BLKREQ_READ, fat_sec fmp cl) #
                       (if fat_border fmp cl then [(UK_BLKREQ_READ, fat_sec fmp cl + 1)] else [])"

definition wr_log :: "fatfsmount \<Rightarrow> u32 \<Rightarrow> (blkop \<times> u32) list" where
  "wr_log fmp cl = (UK_BLKREQ_WRITE, fat_sec fmp cl) #
                       (if fat_border fmp cl then [(UK_BLKREQ_WRITE, fat_sec fmp cl + 1)] else [])"

definition wr_data :: "fatfsmount \<Rightarrow> u32 \<Rightarrow> (u32 \<Rightarrow> nat \<Rightarrow> u8)" where
  "wr_data fmp cl = (let D = blk_data (dev fmp); s = fat_sec fmp cl;
      D1 = D(s := buf_to_sector (fat_buf fmp) 0 (D s))
     in if fat_border fmp cl then D1(s + 1 := buf_to_sector (fat_buf fmp) (unat SEC_SIZE) (D (s + 1))) else D1)"

definition fat_idx :: "fatfsmount \<Rightarrow> u32 \<Rightarrow> nat" where
  "fat_idx fmp cl = unat (if FAT16 fmp then cl * 2 else cl * 3 div 2)"

definition fatb :: "fatfsmount \<Rightarrow> nat \<Rightarrow> u8" where
  "fatb fmp k = blk_data (dev fmp) (fat_start fmp + of_nat (k div 512)) (k mod 512)"

definition fat_decode :: "fatfsmount \<Rightarrow> u32 \<Rightarrow> u16 \<Rightarrow> u32" where
  "fat_decode fmp cl val = ucast (if FAT12 fmp
                           then (if cl AND 1 \<noteq> 0 then drop_bit 4 val else val AND 0xfff)
                           else val)"

definition fat_encode :: "fatfsmount \<Rightarrow> u32 \<Rightarrow> u32 \<Rightarrow> u16 \<Rightarrow> u16" where
  "fat_encode fmp cl next tmp =
     (let val = (ucast (next AND fat_mask fmp) :: u16)
      in if FAT12 fmp
         then (if cl AND 1 \<noteq> 0 then push_bit 4 val OR (tmp AND 0xf) else val OR (tmp AND 0xf000))
         else val)"

definition fat_get :: "fatfsmount \<Rightarrow> u32 \<Rightarrow> u32" where
  "fat_get fmp cl = fat_decode fmp cl (load16 (rd_buf fmp cl) (fat_offset fmp cl))"

definition set_buf :: "fatfsmount \<Rightarrow> u32 \<Rightarrow> u32 \<Rightarrow> (nat \<Rightarrow> u8)" where
  "set_buf fmp cl next = store16 (rd_buf fmp cl) (fat_offset fmp cl)
      (fat_encode fmp cl next (load16 (rd_buf fmp cl) (fat_offset fmp cl)))"

definition old16 :: "fatfsmount \<Rightarrow> u32 \<Rightarrow> u16" where
  "old16 fmp cl = ucast (fatb fmp (fat_idx fmp cl)) OR push_bit 8 (ucast (fatb fmp (Suc (fat_idx fmp cl))))"

text \<open>Two small volumes on a zero-filled device that never fails, for concrete runs.\<close>

definition zero_dev :: blkdev where
  "zero_dev = \<lparr>blk_data = (\<lambda>s i. 0), blk_fail = (\<lambda>l op s. 0), blk_log = []\<rparr>"

definition vol16 :: fatfsmount where
  "vol16 = \<lparr>fat_type = 16, root_start = 3, fat_start = 1, data_start = 5, fat_eof = 0xfff8,
            sec_per_cl = 4, cluster_size = 2048, last_cluster = 8, fat_mask = 0xffff,
            free_scan = 2, fat_buf = (\<lambda>i. 0), dir_buf = (\<lambda>i. 0), dev = zero_dev\<rparr>"

definition vol12 :: fatfsmount where
  "vol12 = \<lparr>fat_type = 12, root_start = 3, fat_start = 1, data_start = 5, fat_eof = 0xff8,
            sec_per_cl = 1, cluster_size = 512, last_cluster = 344, fat_mask = 0xfff,
            free_scan = 2, fat_buf = (\<lambda>i. 0), dir_buf = (\<lambda>i. 0), dev = zero_dev\<rparr>"

text \<open>
  A FAT16 volume holding the chain 2 \<rightarrow> 3 \<rightarrow> 4 \<rightarrow> 0xFFFF. Its FAT is the two sectors 1
  and 2; sector 256 lies in the data area and holds the bytes 0x41, 0x42 at offsets 510
  and 511, which is where entry number 0xFFFF of an unbounded FAT would lie.
\<close>

definition chain_dev :: blkdev where
  "chain_dev =
     \<lparr>blk_data = (\<lambda>s i. if s = 1
                        then (if i = 0 then 0xf8 else if i = 1 \<or> i = 2 \<or> i = 3 then 0xff
                              else if i = 4 then 3 else if i = 6 then 4
                              else if i = 8 \<or> i = 9 then 0xff else 0)
                        else if s = 256 \<and> i = 510 then 0x41
                        else if s = 256 \<and> i = 511 then 0x42 else 0),
      blk_fail = (\<lambda>l op s. 0), blk_log = []\<rparr>"

definition vol16_chain :: fatfsmount where
  "vol16_chain = \<lparr>fat_type = 16, root_start = 3, fat_start = 1, data_start = 5, fat_eof = 0xfff8,
            sec_per_cl = 4, cluster_size = 2048, last_cluster = 8, fat_mask = 0xffff,
            free_scan = 2, fat_buf = (\<lambda>i. 0), dir_buf = (\<lambda>i. 0), dev = chain_dev\<rparr>"

text \<open>
  A FAT16 volume with the one-cluster directory chain 2 \<rightarrow> 0xFFFF; sector 257 of the data
  area starts with the byte 0x41.
\<close>

definition dir_dev :: blkdev where
  "dir_dev =
     \<lparr>blk_data = (\<lambda>s i. if s = 1
                        then (if i = 0 then 0xf8 else if 1 \<le> i \<and> i \<le> 5 then 0xff else 0)
                        else if s = 257 \<and> i = 0 then 0x41 else 0),
      blk_fail = (\<lambda>l op s. 0), blk_log = []\<rparr>"

definition vol16_dir :: fatfsmount where
  "vol16_dir = \<lparr>fat_type = 16, root_start = 3, fat_start = 1, data_start = 5, fat_eof = 0xfff8,
            sec_per_cl = 4, cluster_size = 2048, last_cluster = 8, fat_mask = 0xffff,
            free_scan = 2, fat_buf = (\<lambda>i. 0), dir_buf = (\<lambda>i. 0), dev = dir_dev\<rparr>"

text \<open>A device on which every read succeeds and every write fails with \<^verbatim>\<open>EIO\<close>.\<close>

definition rdonly_dev :: blkdev where
  "rdonly_dev = \<lparr>blk_data = (\<lambda>s i. 0),
                  blk_fail = (\<lambda>l op s. case op of UK_BLKREQ_READ \<Rightarrow> 0 | UK_BLKREQ_WRITE \<Rightarrow> EIO),
                  blk_log = []\<rparr>"

definition vol16_rdonly :: fatfsmount where
  "vol16_rdonly = \<lparr>fat_type = 16, root_start = 3, fat_start = 1, data_start = 5, fat_eof = 0xfff8,
            sec_per_cl = 4, cluster_size = 2048, last_cluster = 8, fat_mask = 0xffff,
            free_scan = 2, fat_buf = (\<lambda>i. 0), dir_buf = (\<lambda>i. 0), dev = rdonly_dev\<rparr>"

text \<open>The node that \<^verbatim>\<open>fatfs_get_node\<close> makes up for index 0 of a root directory, from a
  zeroed node.\<close>

definition dot_node :: fatfs_node where
  "dot_node = synth_node dot_name 0 \<lparr>dirent = (\<lambda>j. 0), sector = 0, offset = 0\<rparr>"

section \<open>The FAT entry codec when the device does not fail\<close>

lemma m12: "(0xfff :: 'a::len word) = mask 12" by (simp add: mask_eq_exp_minus_1)
lemma m16: "(0xffff :: 'a::len word) = mask 16" by (simp add: mask_eq_exp_minus_1)
lemma m4: "(0xf :: 'a::len word) = mask 4" by (simp add: mask_eq_exp_minus_1)
lemma mhi: "(0xf000 :: u16) = push_bit 12 (mask 4)" by (simp add: mask_eq_exp_minus_1)

lemma io_okD: "io_ok d \<Longrightarrow> blk_fail d l op s = 0"
  unfolding io_ok_def by blast

lemma io_ok_upd [simp]: "io_ok (d\<lparr>blk_log := l\<rparr>) = io_ok d" "io_ok (d\<lparr>blk_data := x\<rparr>) = io_ok d"
  unfolding io_ok_def by simp_all

lemma sync_read_ok: "io_ok d \<Longrightarrow> uk_blkdev_sync_io d UK_BLKREQ_READ sec buf off =
   (0, d\<lparr>blk_log := blk_log d @ [(UK_BLKREQ_READ, sec)]\<rparr>, sector_to_buf (blk_data d sec) buf off)"
  by (simp add: uk_blkdev_sync_io_def Let_def io_okD)

lemma sync_write_ok: "io_ok d \<Longrightarrow> uk_blkdev_sync_io d UK_BLKREQ_WRITE sec buf off =
   (0, d\<lparr>blk_log := blk_log d @ [(UK_BLKREQ_WRITE, sec)],
         blk_data := (blk_data d)(sec := buf_to_sector buf off (blk_data d sec))\<rparr>,
    buf)"
  by (simp add: uk_blkdev_sync_io_def Let_def io_okD)

lemma fat_sec_upd [simp]:
  "fat_sec (fmp\<lparr>fat_buf := b\<rparr>) = fat_sec fmp"
  "fat_sec (fmp\<lparr>dir_buf := b\<rparr>) = fat_sec fmp"
  "fat_sec (fmp\<lparr>dev := d\<rparr>) = fat_sec fmp"
  by (simp_all add: fat_sec_def fun_eq_iff)

lemma fat_border_upd [simp]:
  "fat_border (fmp\<lparr>fat_buf := b\<rparr>) = fat_border fmp"
  "fat_border (fmp\<lparr>dir_buf := b\<rparr>) = fat_border fmp"
  "fat_border (fmp\<lparr>dev := d\<rparr>) = fat_border fmp"
  by (simp_all add: fat_border_def fun_eq_iff)

lemma fat_offset_upd [simp]:
  "fat_offset (fmp\<lparr>fat_buf := b\<rparr>) = fat_offset fmp"
  "fat_offset (fmp\<lparr>dir_buf := b\<rparr>) = fat_offset fmp"
  "fat_offset (fmp\<lparr>dev := d\<rparr>) = fat_offset fmp"
  by (simp_all add: fat_offset_def fun_eq_iff)

lemma read_fat_entry_ok:
  assumes "io_ok (dev fmp)"
  shows "read_fat_entry fmp cl =
    (0, fmp\<lparr>fat_buf := rd_buf fmp cl,
             dev := (dev fmp)\<lparr>blk_log := blk_log (dev fmp) @ rd_log fmp cl\<rparr>\<rparr>)"
proof (cases "fat_border fmp cl")
  case True
  then have "fat_type fmp = 12" "(cl * 3 div 2) mod SEC_SIZE = SEC_SIZE - 1"
    by (simp_all add: fat_border_def)
  then show ?thesis using assms True
    by (simp add: read_fat_entry_def sync_read_ok Let_def rd_buf_def rd_log_def fat_sec_def)
next
  case False
  show ?thesis
  proof (cases "fat_type fmp = 16")
    case True
    then show ?thesis using assms \<open>\<not> fat_border fmp cl\<close>
      by (simp add: read_fat_entry_def sync_read_ok Let_def rd_buf_def rd_log_def fat_sec_def)
  next
    case f16: False
    then have "\<not> (fat_type fmp = 12 \<and> (cl * 3 div 2) mod SEC_SIZE = SEC_SIZE - 1)"
      using False by (simp add: fat_border_def)
    then show ?thesis using assms f16 \<open>\<not> fat_border fmp cl\<close>
      by (simp add: read_fat_entry_def sync_read_ok Let_def rd_buf_def rd_log_def fat_sec_def)
  qed
qed

lemma write_fat_entry_ok:
  assumes "io_ok (dev fmp)"
  shows "write_fat_entry fmp cl = (0, fmp\<lparr>dev := (dev fmp)\<lparr>blk_log := blk_log (dev fmp) @ wr_log fmp cl,
                  blk_data := wr_data fmp cl\<rparr>\<rparr>)"
proof (cases "fat_border fmp cl")
  case True
  then have "fat_type fmp = 12" "(cl * 3 div 2) mod SEC_SIZE = SEC_SIZE - 1"
    by (simp_all add: fat_border_def)
  then show ?thesis using assms True
    by (simp add: write_fat_entry_def sync_write_ok Let_def wr_data_def wr_log_def fat_sec_def)
next
  case False
  show ?thesis
  proof (cases "fat_type fmp = 16")
    case True
    then show ?thesis using assms \<open>\<not> fat_border fmp cl\<close>
      by (simp add: write_fat_entry_def sync_write_ok Let_def wr_data_def wr_log_def fat_sec_def)
  next
    case f16: False
    then have "\<not> (fat_type fmp = 12 \<and> (cl * 3 div 2) mod SEC_SIZE = SEC_SIZE - 1)"
      using False by (simp add: fat_border_def)
    then show ?thesis using assms f16 \<open>\<not> fat_border fmp cl\<close>
      by (simp add: write_fat_entry_def sync_write_ok Let_def wr_data_def wr_log_def fat_sec_def)
  qed
qed

lemma s2b_apply: "sector_to_buf s buf off i = (if off \<le> i \<and> i < off + 512 then s (i - off) else buf i)"
  by (simp add: sector_to_buf_def SEC_SIZE_def)

lemma b2s_apply: "buf_to_sector buf off s i = (if i < 512 then buf (off + i) else s i)"
  by (simp add: buf_to_sector_def SEC_SIZE_def)

lemma fat_sec_idx: "fat_sec fmp cl = fat_start fmp + of_nat (fat_idx fmp cl div 512)"
  apply (simp add: fat_sec_def fat_idx_def SEC_SIZE_def)
  apply (simp add: word_arith_nat_div)
  done

lemma fat_offset_idx: "fat_offset fmp cl = fat_idx fmp cl mod 512"
  by (simp add: fat_offset_def fat_idx_def SEC_SIZE_def unat_mod)

lemma fat_border_idx: "fat_border fmp cl = (FAT12 fmp \<and> fat_idx fmp cl mod 512 = 511)"
  apply (simp add: fat_border_def fat_idx_def SEC_SIZE_def)
  apply (auto simp add: unat_mod word_unat_eq_iff)
  done

lemma fat_next_cluster_ok:
  assumes "io_ok (dev fmp)"
  shows "fat_next_cluster fmp cl =
    (Inr (fat_get fmp cl), fmp\<lparr>fat_buf := rd_buf fmp cl,
             dev := (dev fmp)\<lparr>blk_log := blk_log (dev fmp) @ rd_log fmp cl\<rparr>\<rparr>)"
  using assms
  by (simp add: fat_next_cluster_def read_fat_entry_ok Let_def fat_get_def fat_decode_def)

lemma fat_set_cluster_ok:
  assumes "io_ok (dev fmp)"
  shows "fat_set_cluster fmp cl next =
    (0, fmp\<lparr>fat_buf := set_buf fmp cl next,
             dev := (dev fmp)\<lparr>blk_log := blk_log (dev fmp) @ rd_log fmp cl @ wr_log fmp cl,
                    blk_data := wr_data (fmp\<lparr>fat_buf := set_buf fmp cl next\<rparr>) cl\<rparr>\<rparr>)"
  using assms
  apply (simp add: fat_set_cluster_def read_fat_entry_ok write_fat_entry_ok Let_def set_buf_def fat_encode_def)
  apply (simp add: wr_data_def wr_log_def)
  done

lemma dm1: "(k::nat) mod 512 = 511 \<Longrightarrow> (k + 1) div 512 = k div 512 + 1 \<and> (k + 1) mod 512 = 0"
  by (simp add: div_Suc mod_Suc)

lemma dm2: "(k::nat) mod 512 \<noteq> 511 \<Longrightarrow> (k + 1) div 512 = k div 512 \<and> (k + 1) mod 512 = k mod 512 + 1"
  by (simp add: div_Suc mod_Suc)

lemma sec_inj: "a < 2 ^ 32 \<Longrightarrow> b < 2 ^ 32 \<Longrightarrow> ((fs :: u32) + of_nat a = fs + of_nat b) = (a = b)"
  by (simp add: word_of_nat_eq_iff take_bit_nat_eq_self)

lemma idx_lt: "fat_idx fmp cl < 2 ^ 32"
  unfolding fat_idx_def using unsigned_less[of "(if FAT16 fmp then cl * 2 else cl * 3 div 2)"] by simp

lemma idx16_even: "FAT16 fmp \<Longrightarrow> even (fat_idx fmp cl)"
  by (simp add: fat_idx_def unat_word_ariths dvd_mod_iff)

lemma idx16_off: "FAT16 fmp \<Longrightarrow> fat_idx fmp cl mod 512 \<noteq> 511"
proof
  assume a: "FAT16 fmp" and b: "fat_idx fmp cl mod 512 = 511"
  from idx16_even[OF a] have "even (fat_idx fmp cl mod 512)" by (simp add: dvd_mod_iff)
  with b show False by simp
qed

lemma unat_SEC_SIZE: "unat SEC_SIZE = 512"
  by (simp add: SEC_SIZE_def)

lemma nle512: "((512::nat) \<le> k mod 512) = False"
  by (simp add: not_le)

lemma ne512: "((k::nat) mod 512 = 512) = False"
  using mod_less_divisor[of 512 k] by (simp del: mod_less_divisor)

lemma rd_lo: "rd_buf fmp cl (fat_idx fmp cl mod 512) = fatb fmp (fat_idx fmp cl)"
  by (simp add: rd_buf_def Let_def s2b_apply unat_SEC_SIZE fatb_def fat_sec_idx nle512)

lemma rd_hi:
  assumes "FAT12 fmp \<or> FAT16 fmp"
  shows "rd_buf fmp cl (Suc (fat_idx fmp cl mod 512)) = fatb fmp (Suc (fat_idx fmp cl))"
proof (cases "fat_idx fmp cl mod 512 = 511")
  case True
  then have b: "fat_border fmp cl" using assms idx16_off[of fmp cl] by (auto simp: fat_border_idx)
  show ?thesis using b True dm1[OF True]
    by (simp add: rd_buf_def Let_def s2b_apply unat_SEC_SIZE fatb_def fat_sec_idx ac_simps)
next
  case False
  have "fat_idx fmp cl mod 512 < 512" by simp
  with False have lt: "fat_idx fmp cl mod 512 + 1 < 512" by linarith
  show ?thesis using False dm2[OF False] lt
    by (simp add: rd_buf_def Let_def s2b_apply unat_SEC_SIZE fatb_def fat_sec_idx fat_border_idx)
qed

lemma fat_get_bytes:
  assumes "FAT12 fmp \<or> FAT16 fmp"
  shows "fat_get fmp cl = fat_decode fmp cl
     (ucast (fatb fmp (fat_idx fmp cl)) OR push_bit 8 (ucast (fatb fmp (Suc (fat_idx fmp cl)))))"
  by (simp add: fat_get_def load16_def fat_offset_idx rd_lo rd_hi[OF assms])

lemma same_sec: "(a::nat) div 512 = b div 512 \<Longrightarrow> (a = b) = (a mod 512 = b mod 512)"
  by (metis div_mult_mod_eq)

lemma nxt_sec: "(a::nat) div 512 = Suc (b div 512) \<Longrightarrow> b mod 512 = 511 \<Longrightarrow> (a = Suc b) = (a mod 512 = 0)"
  using same_sec[of a "Suc b"] dm1[of b] by simp

lemma same_sec_Suc: "(a::nat) div 512 = b div 512 \<Longrightarrow> b mod 512 \<noteq> 511 \<Longrightarrow> (a = Suc b) = (a mod 512 = Suc (b mod 512))"
  using same_sec[of a "Suc b"] dm2[of b] by simp

lemma div_lt: "(k::nat) < 2 ^ 32 \<Longrightarrow> Suc (k div 512) < 2 ^ 32"
  by (simp add: less_Suc_eq_le[symmetric] div_le_mono[of k 4294967295 512, simplified])

lemma of_nat_inj32: "a < 2 ^ 32 \<Longrightarrow> b < 2 ^ 32 \<Longrightarrow> (of_nat a = (of_nat b :: u32)) = (a = b)"
  by (simp add: word_of_nat_eq_iff take_bit_nat_eq_self)
lemma wr_data_fatb:
  assumes wf: "FAT12 fmp \<or> FAT16 fmp" and q: "k div 512 < 2 ^ 32"
  shows "wr_data (fmp\<lparr>fat_buf := store16 (rd_buf fmp cl) (fat_idx fmp cl mod 512) e\<rparr>) cl
            (fat_start fmp + of_nat (k div 512)) (k mod 512) =
         (if k = fat_idx fmp cl then ucast e
          else if k = Suc (fat_idx fmp cl) then ucast (drop_bit 8 e) else fatb fmp k)"
proof -
  let ?K = "fat_idx fmp cl"
  have Kq: "?K div 512 < 2 ^ 32" using div_lt[OF idx_lt[of fmp cl]] by simp
  show ?thesis
  proof (cases "?K mod 512 = 511")
    case True
    then have b: "fat_border fmp cl" using wf idx16_off[of fmp cl] by (auto simp: fat_border_idx)
    have S: "Suc ?K div 512 = Suc (?K div 512)" "Suc ?K mod 512 = 0" using dm1[OF True] by simp_all
    consider (same) "k div 512 = ?K div 512" | (nxt) "k div 512 = Suc (?K div 512)"
      | (other) "k div 512 \<noteq> ?K div 512" "k div 512 \<noteq> Suc (?K div 512)" by blast
    then show ?thesis
    proof cases
      case same
      have e1: "(k = ?K) = (k mod 512 = 511)" using same_sec[OF same] True by simp
      have n2: "k \<noteq> Suc ?K" using same S by auto
      show ?thesis using b same n2 True
        by (simp add: wr_data_def Let_def b2s_apply fat_sec_idx store16_def e1 rd_buf_def s2b_apply fatb_def unat_SEC_SIZE nle512 ne512)
    next
      case nxt
      have n1: "k \<noteq> ?K" using nxt by auto
      have e2: "(k = Suc ?K) = (k mod 512 = 0)" using nxt_sec[OF nxt True] .
      show ?thesis using b nxt n1 True
        by (simp add: wr_data_def Let_def b2s_apply fat_sec_idx store16_def e2 rd_buf_def s2b_apply fatb_def unat_SEC_SIZE nle512 ne512 ac_simps)
    next
      case other
      have n1: "k \<noteq> ?K" using other by auto
      have n2: "k \<noteq> Suc ?K" using other S by auto
      have Kq1: "Suc (?K div 512) < 2 ^ 32" using div_lt[OF idx_lt[of fmp cl]] .
      have a1: "fat_start fmp + word_of_nat (k div 512) \<noteq> fat_start fmp + word_of_nat (?K div 512)"
        using other(1) q Kq by (simp add: sec_inj of_nat_inj32)
      have a2: "fat_start fmp + word_of_nat (k div 512) \<noteq> fat_start fmp + word_of_nat (?K div 512) + 1"
        using other(2) q Kq1 sec_inj[of "k div 512" "Suc (?K div 512)" "fat_start fmp"] by (simp add: ac_simps)
      show ?thesis using b n1 n2 a1 a2
        by (simp add: wr_data_def Let_def fat_sec_idx fatb_def)
    qed
  next
    case False
    then have nb: "\<not> fat_border fmp cl" by (simp add: fat_border_idx)
    have lt: "Suc (?K mod 512) < 512" using False by (simp add: less_Suc_eq_le[symmetric]) 
    show ?thesis
    proof (cases "k div 512 = ?K div 512")
      case True
      have e1: "(k = ?K) = (k mod 512 = ?K mod 512)" using same_sec[OF True] .
      have e2: "(k = Suc ?K) = (k mod 512 = Suc (?K mod 512))" using same_sec_Suc[OF True False] .
      show ?thesis using nb True lt
        by (simp add: wr_data_def Let_def b2s_apply fat_sec_idx store16_def e1 e2 rd_buf_def s2b_apply fatb_def)
    next
      case F2: False
      then have n1: "k \<noteq> ?K" by auto
      have n2: "k \<noteq> Suc ?K" using F2 dm2[OF False] by auto
      show ?thesis using nb F2 n1 n2 Kq q
        by (simp add: wr_data_def Let_def fat_sec_idx sec_inj of_nat_inj32 fatb_def)
    qed
  qed
qed
lemma fat_idx_upd [simp]:
  "fat_idx (fmp\<lparr>fat_buf := b\<rparr>) = fat_idx fmp"
  "fat_idx (fmp\<lparr>dir_buf := b\<rparr>) = fat_idx fmp"
  "fat_idx (fmp\<lparr>dev := d\<rparr>) = fat_idx fmp"
  by (simp_all add: fat_idx_def fun_eq_iff)

lemma fat_decode_upd [simp]:
  "fat_decode (fmp\<lparr>fat_buf := b\<rparr>) = fat_decode fmp"
  "fat_decode (fmp\<lparr>dir_buf := b\<rparr>) = fat_decode fmp"
  "fat_decode (fmp\<lparr>dev := d\<rparr>) = fat_decode fmp"
  by (simp_all add: fat_decode_def fun_eq_iff)

lemma fatb_upd [simp]:
  "fatb (fmp\<lparr>fat_buf := b\<rparr>) = fatb fmp"
  "fatb (fmp\<lparr>dir_buf := b\<rparr>) = fatb fmp"
  "fatb (fmp\<lparr>dev := (dev fmp)\<lparr>blk_log := l\<rparr>\<rparr>) = fatb fmp"
  by (simp_all add: fatb_def fun_eq_iff)

lemma load16_rd: "FAT12 fmp \<or> FAT16 fmp \<Longrightarrow> load16 (rd_buf fmp cl) (fat_idx fmp cl mod 512) = old16 fmp cl"
  by (simp add: load16_def rd_lo rd_hi old16_def)

lemma fat_get_old16: "FAT12 fmp \<or> FAT16 fmp \<Longrightarrow> fat_get fmp cl = fat_decode fmp cl (old16 fmp cl)"
  by (simp add: fat_get_def load16_rd fat_offset_idx)

lemma set_fatb:
  assumes io: "io_ok (dev fmp)" and wf: "FAT12 fmp \<or> FAT16 fmp" and q: "k div 512 < 2 ^ 32"
  shows "fatb (snd (fat_set_cluster fmp cl v)) k =
         (if k = fat_idx fmp cl then ucast (fat_encode fmp cl v (old16 fmp cl))
          else if k = Suc (fat_idx fmp cl) then ucast (drop_bit 8 (fat_encode fmp cl v (old16 fmp cl)))
          else fatb fmp k)"
proof -
  have "fatb (snd (fat_set_cluster fmp cl v)) k =
        wr_data (fmp\<lparr>fat_buf := store16 (rd_buf fmp cl) (fat_idx fmp cl mod 512)
                   (fat_encode fmp cl v (old16 fmp cl))\<rparr>) cl
            (fat_start fmp + of_nat (k div 512)) (k mod 512)"
    by (simp add: fat_set_cluster_ok[OF io] fatb_def set_buf_def load16_rd[OF wf] fat_offset_idx)
  then show ?thesis
    by (simp only: wr_data_fatb[OF wf q])
qed

lemma set_static:
  assumes io: "io_ok (dev fmp)"
  shows "fat_type (snd (fat_set_cluster fmp cl v)) = fat_type fmp"
        "fat_mask (snd (fat_set_cluster fmp cl v)) = fat_mask fmp"
        "io_ok (dev (snd (fat_set_cluster fmp cl v)))"
        "fst (fat_set_cluster fmp cl v) = 0"
  using io by (simp_all add: fat_set_cluster_ok[OF io])

lemma w16_split: "ucast (ucast (e::u16) :: u8) OR push_bit 8 (ucast (ucast (drop_bit 8 e) :: u8)) = e"
  apply (rule bit_word_eqI)
  apply (auto simp add: bit_simps)
  done

lemma set_old16_same:
  assumes io: "io_ok (dev fmp)" and wf: "FAT12 fmp \<or> FAT16 fmp"
  shows "old16 (snd (fat_set_cluster fmp cl v)) cl = fat_encode fmp cl v (old16 fmp cl)"
proof -
  have q1: "fat_idx fmp cl div 512 < 2 ^ 32" using div_lt[OF idx_lt[of fmp cl]] by simp
  have q2: "Suc (fat_idx fmp cl) div 512 < 2 ^ 32" using div_lt[OF idx_lt[of fmp cl]]
    by (simp add: div_Suc)
  have t: "fat_idx (snd (fat_set_cluster fmp cl v)) cl = fat_idx fmp cl"
    by (simp add: fat_idx_def set_static[OF io])
  show ?thesis
    unfolding old16_def t set_fatb[OF io wf q1] set_fatb[OF io wf q2]
    by (simp add: w16_split)
qed

lemma decode_encode:
  assumes "(FAT12 fmp \<and> fat_mask fmp = 0xfff) \<or> (FAT16 fmp \<and> fat_mask fmp = 0xffff)"
  shows "fat_decode fmp cl (fat_encode fmp cl v t) = v AND fat_mask fmp"
proof -
  have a: "ucast (drop_bit 4 (push_bit 4 (ucast (v AND mask 12) :: u16) OR (t AND mask 4))) = (v AND mask 12 :: u32)"
    by (rule bit_word_eqI) (auto simp add: bit_simps)
  have b: "ucast (((ucast (v AND mask 12) :: u16) OR (t AND push_bit 12 (mask 4))) AND mask 12) = (v AND mask 12 :: u32)"
    by (rule bit_word_eqI) (auto simp add: bit_simps)
  have c: "ucast ((ucast (v AND mask 16) :: u16)) = (v AND mask 16 :: u32)"
    by (rule bit_word_eqI) (auto simp add: bit_simps)
  show ?thesis using assms a b c
    by (auto simp add: fat_decode_def fat_encode_def Let_def m12 m4 mhi m16)
qed

section \<open>One call of the store operation and the entries of other clusters\<close>

lemma fat_get_after_set:
  assumes io: "io_ok (dev fmp)" and ty: "FAT12 fmp \<or> FAT16 fmp"
  shows "fat_get (snd (fat_set_cluster fmp c v)) c' =
         fat_decode fmp c' (old16 (snd (fat_set_cluster fmp c v)) c')"
proof -
  let ?fmp1 = "snd (fat_set_cluster fmp c v)"
  have ty1: "FAT12 ?fmp1 \<or> FAT16 ?fmp1" using ty by (simp add: set_static[OF io])
  have dec: "fat_decode ?fmp1 = fat_decode fmp"
    by (simp add: fat_decode_def fun_eq_iff set_static[OF io])
  show ?thesis by (simp add: fat_get_old16[OF ty1] dec)
qed

lemma idx_after_set:
  assumes io: "io_ok (dev fmp)"
  shows "fat_idx (snd (fat_set_cluster fmp c v)) c' = fat_idx fmp c'"
  by (simp add: fat_idx_def set_static[OF io])

lemma idx_div_lt: "fat_idx fmp c div 512 < 2 ^ 32" "Suc (fat_idx fmp c) div 512 < 2 ^ 32"
  using div_lt[OF idx_lt[of fmp c]] by (simp_all add: div_Suc)

lemma set_old16_disjoint:
  assumes io: "io_ok (dev fmp)" and ty: "FAT12 fmp \<or> FAT16 fmp"
    and dj: "Suc (fat_idx fmp c) < fat_idx fmp c' \<or> Suc (fat_idx fmp c') < fat_idx fmp c"
  shows "old16 (snd (fat_set_cluster fmp c v)) c' = old16 fmp c'"
proof -
  have n: "fat_idx fmp c' \<noteq> fat_idx fmp c" "fat_idx fmp c' \<noteq> Suc (fat_idx fmp c)"
          "Suc (fat_idx fmp c') \<noteq> fat_idx fmp c" "fat_idx fmp c' \<noteq> fat_idx fmp c"
    using dj by auto
  show ?thesis
    unfolding old16_def idx_after_set[OF io]
      set_fatb[OF io ty idx_div_lt(1)] set_fatb[OF io ty idx_div_lt(2)]
    using n by simp
qed

lemma odd_and1: "((c::u32) AND 1 \<noteq> 0) = odd (unat c)"
  by (simp add: and_one_eq word_eq_iff_unsigned[where ?'a = nat] unat_mod odd_iff_mod_2_eq_one)

lemma idx12_nat: "fat_type fmp \<noteq> 16 \<Longrightarrow> fat_idx fmp c = (3 * unat c mod 2 ^ 32) div 2"
  by (simp add: fat_idx_def unat_div unat_word_ariths mult.commute)

lemma unat_succ32: "unat ((c::u32) + 1) = (unat c + 1) mod 2 ^ 32"
  by (simp add: unat_word_ariths)

lemma x3: "3 * ((n + 1) mod 4294967296) mod 4294967296 = (3 * n mod 4294967296 + 3) mod (4294967296::nat)"
proof -
  have "3 * ((n + 1) mod 4294967296) mod 4294967296 = (3 * (n + 1)) mod (4294967296::nat)"
    by (simp add: mod_mult_right_eq)
  also have "\<dots> = (3 * n + 3) mod 4294967296" by (simp add: algebra_simps)
  also have "\<dots> = (3 * n mod 4294967296 + 3) mod 4294967296" by (simp add: mod_add_left_eq)
  finally show ?thesis .
qed

lemma par: "even (3 * n mod 4294967296) = even (n::nat)"
  by (simp add: dvd_mod_iff)

lemma pair_nat:
  fixes n :: nat
  defines "x \<equiv> 3 * n mod 4294967296"
  defines "y \<equiv> 3 * ((n + 1) mod 4294967296) mod 4294967296"
  shows "(even n \<and> y div 2 = Suc (x div 2)) \<or> Suc (x div 2) < y div 2 \<or> Suc (y div 2) < x div 2"
proof -
  have xb: "x < 4294967296" unfolding x_def by simp
  have y: "y = (x + 3) mod 4294967296" unfolding x_def y_def by (rule x3)
  have p: "even x = even n" unfolding x_def by (rule par)
  show ?thesis
  proof (cases "x + 3 < 4294967296")
    case True
    then have yy: "y = x + 3" using y by simp
    show ?thesis
    proof (cases "even n")
      case True
      then have "even x" using p by simp
      then have "(x + 3) div 2 = Suc (x div 2)" by (elim evenE) simp
      then show ?thesis using True yy by simp
    next
      case False
      then have "odd x" using p by simp
      then have "(x + 3) div 2 = Suc (Suc (x div 2))" by (elim oddE) simp
      then show ?thesis using yy by simp
    qed
  next
    case False
    then have "y = x + 3 - 4294967296" using y xb by (simp add: mod_if)
    then have "y \<le> 2" using xb by simp
    then have "y div 2 \<le> 1" by simp
    moreover have "4294967293 \<le> x" using False by simp
    then have "4294967293 div 2 \<le> x div 2" by (rule div_le_mono)
    then have "2147483646 \<le> x div 2" by simp
    ultimately show ?thesis by linarith
  qed
qed

lemma odd_succ: "even (n::nat) \<Longrightarrow> odd ((n + 1) mod 4294967296)"
  by (simp add: dvd_mod_iff)


lemma idx12_pair:
  assumes "FAT12 fmp"
  shows "(even (unat c) \<and> odd (unat (c + 1)) \<and> fat_idx fmp (c + 1) = Suc (fat_idx fmp c))
       \<or> Suc (fat_idx fmp c) < fat_idx fmp (c + 1)
       \<or> Suc (fat_idx fmp (c + 1)) < fat_idx fmp c"
proof -
  have t: "fat_type fmp \<noteq> 16" using assms by simp
  have K: "fat_idx fmp c = (3 * unat c mod 4294967296) div 2"
    using idx12_nat[OF t, of c] by simp
  have K': "fat_idx fmp (c + 1) = (3 * ((unat c + 1) mod 4294967296) mod 4294967296) div 2"
    using idx12_nat[OF t, of "c + 1"] by (simp add: unat_succ32)
  have s: "unat (c + 1) = (unat c + 1) mod 4294967296" by (simp add: unat_succ32)
  show ?thesis unfolding K K' s using pair_nat[of "unat c"] odd_succ[of "unat c"] by blast
qed

lemma nib_hi_kept: "drop_bit 4 (ucast (ucast (drop_bit 8 ((ucast (v AND mask 12 :: u32) :: u16) OR
              ((ucast (l::u8) OR push_bit 8 (ucast (h::u8))) AND push_bit 12 (mask 4)))) :: u8)
            OR push_bit 8 (ucast (x::u8)) :: u16)
         = drop_bit 4 (ucast h OR push_bit 8 (ucast x))"
  apply (rule bit_word_eqI)
  apply (auto simp add: bit_simps dest: bit_imp_le_length)
  done

lemma nib_lo_kept: "(ucast (l::u8) OR push_bit 8 (ucast (ucast (push_bit 4 (ucast (v AND mask 12 :: u32) :: u16) OR
              ((ucast (h::u8) OR push_bit 8 (ucast (x::u8))) AND mask 4)) :: u8)) :: u16) AND mask 12
         = (ucast l OR push_bit 8 (ucast h)) AND mask 12"
  apply (rule bit_word_eqI)
  apply (auto simp add: bit_simps dest: bit_imp_le_length)
  done

lemma set_even_keeps_next:
  assumes io: "io_ok (dev fmp)" and f12: "FAT12 fmp" and m: "fat_mask fmp = 0xfff"
    and ev: "even (unat c)" and od: "odd (unat (c + 1))"
    and ix: "fat_idx fmp (c + 1) = Suc (fat_idx fmp c)"
  shows "fat_decode fmp (c + 1) (old16 (snd (fat_set_cluster fmp c v)) (c + 1)) =
         fat_decode fmp (c + 1) (old16 fmp (c + 1))"
proof -
  have ty: "FAT12 fmp \<or> FAT16 fmp" using f12 by simp
  have c0: "c AND 1 = 0" using ev odd_and1[of c] by simp
  have c1: "(c + 1) AND 1 \<noteq> 0" using od odd_and1[of "c + 1"] by simp
  have q2: "Suc (Suc (fat_idx fmp c)) div 512 < 2 ^ 32"
    using idx_div_lt(2)[of fmp "c + 1"] by (simp add: ix)
  have o: "old16 (snd (fat_set_cluster fmp c v)) (c + 1) =
        ucast (ucast (drop_bit 8 (fat_encode fmp c v (old16 fmp c))) :: u8) OR
        push_bit 8 (ucast (fatb fmp (Suc (Suc (fat_idx fmp c)))))"
    unfolding old16_def idx_after_set[OF io] ix
      set_fatb[OF io ty idx_div_lt(2)] set_fatb[OF io ty q2]
    by simp
  have e: "fat_encode fmp c v (old16 fmp c) =
        ucast (v AND mask 12) OR ((ucast (fatb fmp (fat_idx fmp c)) OR
           push_bit 8 (ucast (fatb fmp (Suc (fat_idx fmp c))))) AND push_bit 12 (mask 4))"
    using f12 c0 by (simp add: fat_encode_def Let_def m m12 mhi old16_def)
  have d: "\<And>val. fat_decode fmp (c + 1) val = ucast (drop_bit 4 val)"
    using f12 c1 by (simp add: fat_decode_def)
  show ?thesis
    apply (simp only: o d)
    apply (simp only: e)
    apply (simp only: old16_def ix nib_hi_kept)
    done
qed

lemma set_odd_keeps_prev:
  assumes io: "io_ok (dev fmp)" and f12: "FAT12 fmp" and m: "fat_mask fmp = 0xfff"
    and ev: "even (unat c)" and od: "odd (unat (c + 1))"
    and ix: "fat_idx fmp (c + 1) = Suc (fat_idx fmp c)"
  shows "fat_decode fmp c (old16 (snd (fat_set_cluster fmp (c + 1) v)) c) =
         fat_decode fmp c (old16 fmp c)"
proof -
  have ty: "FAT12 fmp \<or> FAT16 fmp" using f12 by simp
  have c0: "c AND 1 = 0" using ev odd_and1[of c] by simp
  have c1: "(c + 1) AND 1 \<noteq> 0" using od odd_and1[of "c + 1"] by simp
  have o: "old16 (snd (fat_set_cluster fmp (c + 1) v)) c =
        ucast (fatb fmp (fat_idx fmp c)) OR
        push_bit 8 (ucast (ucast (fat_encode fmp (c + 1) v (old16 fmp (c + 1))) :: u8))"
    unfolding old16_def idx_after_set[OF io]
      set_fatb[OF io ty idx_div_lt(1)] set_fatb[OF io ty idx_div_lt(2)]
    by (simp add: ix)
  have e: "fat_encode fmp (c + 1) v (old16 fmp (c + 1)) =
        push_bit 4 (ucast (v AND mask 12)) OR ((ucast (fatb fmp (Suc (fat_idx fmp c))) OR
           push_bit 8 (ucast (fatb fmp (Suc (Suc (fat_idx fmp c)))))) AND mask 4)"
    using f12 c1 by (simp add: fat_encode_def Let_def m m12 m4 old16_def ix)
  have d: "\<And>val. fat_decode fmp c val = ucast (val AND mask 12)"
    using f12 c0 by (simp add: fat_decode_def m12)
  show ?thesis
    apply (simp only: o d)
    apply (simp only: e)
    apply (simp only: old16_def nib_lo_kept)
    done
qed

lemma fat12_set_keeps_next:
  assumes io: "io_ok (dev fmp)" and f12: "FAT12 fmp" and m: "fat_mask fmp = 0xfff"
  shows "fat_get (snd (fat_set_cluster fmp c v)) (c + 1) = fat_get fmp (c + 1)"
proof -
  have ty: "FAT12 fmp \<or> FAT16 fmp" using f12 by simp
  from idx12_pair[OF f12, of c] show ?thesis
  proof (elim disjE conjE)
    assume "even (unat c)" "odd (unat (c + 1))" "fat_idx fmp (c + 1) = Suc (fat_idx fmp c)"
    then show ?thesis
      by (simp add: fat_get_after_set[OF io ty] fat_get_old16[OF ty] set_even_keeps_next[OF io f12 m])
  next
    assume "Suc (fat_idx fmp c) < fat_idx fmp (c + 1)"
    then show ?thesis
      by (simp add: fat_get_after_set[OF io ty] fat_get_old16[OF ty] set_old16_disjoint[OF io ty])
  next
    assume "Suc (fat_idx fmp (c + 1)) < fat_idx fmp c"
    then show ?thesis
      by (simp add: fat_get_after_set[OF io ty] fat_get_old16[OF ty] set_old16_disjoint[OF io ty])
  qed
qed

lemma fat12_set_keeps_prev:
  assumes io: "io_ok (dev fmp)" and f12: "FAT12 fmp" and m: "fat_mask fmp = 0xfff"
  shows "fat_get (snd (fat_set_cluster fmp (c + 1) v)) c = fat_get fmp c"
proof -
  have ty: "FAT12 fmp \<or> FAT16 fmp" using f12 by simp
  from idx12_pair[OF f12, of c] show ?thesis
  proof (elim disjE conjE)
    assume "even (unat c)" "odd (unat (c + 1))" "fat_idx fmp (c + 1) = Suc (fat_idx fmp c)"
    then show ?thesis
      by (simp add: fat_get_after_set[OF io ty] fat_get_old16[OF ty] set_odd_keeps_prev[OF io f12 m])
  next
    assume "Suc (fat_idx fmp c) < fat_idx fmp (c + 1)"
    then show ?thesis
      by (simp add: fat_get_after_set[OF io ty] fat_get_old16[OF ty] set_old16_disjoint[OF io ty])
  next
    assume "Suc (fat_idx fmp (c + 1)) < fat_idx fmp c"
    then show ?thesis
      by (simp add: fat_get_after_set[OF io ty] fat_get_old16[OF ty] set_old16_disjoint[OF io ty])
  qed
qed

section \<open>Round trip of a FAT entry\<close>

text \<open>
  Claim C1. On a FAT12 volume (mask 0xFFF) and on a FAT16 volume (mask 0xFFFF), when no
  request to the device fails, \<^verbatim>\<open>fat_set_cluster(fmp, c, v)\<close> succeeds and a following
  \<^verbatim>\<open>fat_next_cluster(fmp, c, &next)\<close> succeeds with \<^verbatim>\<open>next == (v & fat_mask)\<close>. This holds
  for every 32-bit \<open>c\<close> and \<open>v\<close>.
\<close>

theorem fat_set_next_roundtrip:
  assumes io: "io_ok (dev fmp)"
    and wf: "(FAT12 fmp \<and> fat_mask fmp = 0xfff) \<or> (FAT16 fmp \<and> fat_mask fmp = 0xffff)"
  shows "fst (fat_set_cluster fmp c v) = 0 \<and>
         fst (fat_next_cluster (snd (fat_set_cluster fmp c v)) c) = Inr (v AND fat_mask fmp)"
proof -
  let ?fmp1 = "snd (fat_set_cluster fmp c v)"
  have ty: "FAT12 fmp \<or> FAT16 fmp" using wf by blast
  have ty1: "FAT12 ?fmp1 \<or> FAT16 ?fmp1" using ty by (simp add: set_static[OF io])
  have io1: "io_ok (dev ?fmp1)" by (rule set_static[OF io])
  have dec: "fat_decode ?fmp1 = fat_decode fmp"
    by (simp add: fat_decode_def fun_eq_iff set_static[OF io])
  have "fat_get ?fmp1 c = fat_decode fmp c (fat_encode fmp c v (old16 fmp c))"
    by (simp add: fat_get_old16[OF ty1] dec set_old16_same[OF io ty])
  also have "\<dots> = v AND fat_mask fmp" by (rule decode_encode[OF wf])
  finally have "fat_get ?fmp1 c = v AND fat_mask fmp" .
  then show ?thesis
    by (simp add: set_static[OF io] fat_next_cluster_ok[OF io1])
qed

theorem fat_set_next_roundtrip_witness:
  "fst (fat_set_cluster vol12 341 0xabc) = 0 \<and>
   fst (fat_next_cluster (snd (fat_set_cluster vol12 341 0xabc)) 341) = Inr 0xabc"
proof -
  have io: "io_ok (dev vol12)" by (simp add: vol12_def zero_dev_def io_ok_def)
  have wf: "(FAT12 vol12 \<and> fat_mask vol12 = 0xfff) \<or> (FAT16 vol12 \<and> fat_mask vol12 = 0xffff)"
    by (simp add: vol12_def)
  have m: "(0xabc :: u32) AND fat_mask vol12 = 0xabc" by (simp add: vol12_def)
  show ?thesis using fat_set_next_roundtrip[OF io wf, of 341 "0xabc"] by (simp only: m)
qed


section \<open>FAT12 neighbour isolation\<close>

text \<open>
  Claim C4. On a FAT12 volume (mask 0xFFF) whose device does not fail, for every cluster
  number \<open>c\<close> (every 32-bit value, so also where the two entries share a byte that is the
  last of a sector or the first of the next), \<^verbatim>\<open>fat_set_cluster(fmp, c, v)\<close> leaves the value
  that \<^verbatim>\<open>fat_next_cluster\<close> reads for \<open>c + 1\<close> and for \<open>c - 1\<close> as it was.
\<close>

theorem fat12_neighbour_isolation:
  assumes io: "io_ok (dev fmp)" and f12: "FAT12 fmp" and m: "fat_mask fmp = 0xfff"
    and nb: "c' = c + 1 \<or> c' = c - 1"
  shows "fst (fat_next_cluster (snd (fat_set_cluster fmp c v)) c') = fst (fat_next_cluster fmp c')"
proof -
  have io1: "io_ok (dev (snd (fat_set_cluster fmp c v)))" by (rule set_static[OF io])
  have "fat_get (snd (fat_set_cluster fmp c v)) c' = fat_get fmp c'"
  proof (cases "c' = c + 1")
    case True
    then show ?thesis by (simp add: fat12_set_keeps_next[OF io f12 m])
  next
    case False
    then have "c = c' + 1" using nb by simp
    then show ?thesis by (simp add: fat12_set_keeps_prev[OF io f12 m])
  qed
  then show ?thesis
    by (simp add: fat_next_cluster_ok[OF io] fat_next_cluster_ok[OF io1])
qed

theorem fat12_neighbour_isolation_witness:
  "fst (fat_next_cluster (snd (fat_set_cluster vol12 341 0xabc)) 340) =
   fst (fat_next_cluster vol12 340)"
proof -
  have io: "io_ok (dev vol12)" by (simp add: vol12_def zero_dev_def io_ok_def)
  have f12: "FAT12 vol12" and m: "fat_mask vol12 = 0xfff" by (simp_all add: vol12_def)
  have nb: "(340 :: u32) = 341 + 1 \<or> (340 :: u32) = 341 - 1" by simp
  show ?thesis using fat12_neighbour_isolation[OF io f12 m nb] .
qed


end
